theory Spec2Isabelle
  imports Main
begin

section \<open>The agent of \<open>aipy/agent.py\<close>\<close>

text \<open>
  The development embeds the class \<open>Agent\<close> of \<open>aipy/agent.py\<close>: the reply
  classifier \<open>parse_reply\<close>, the prompt assembly of \<open>_init\<close>, the instruction loop
  \<open>__call__\<close> with \<open>process_code_reply\<close>, \<open>step\<close> and \<open>publish\<close>.

  A Python \<open>str\<close> is a \<open>string\<close>; a \<open>char\<close> stands for a code point below 256.
  A value that may be \<open>None\<close> is an \<open>option\<close>.
\<close>

subsection \<open>Strings: \<open>split\<close>, \<open>join\<close>, \<open>strip\<close>, \<open>startswith\<close>\<close>

text \<open>\<open>str.isspace\<close> on one character, for the code points below 256.\<close>

definition py_isspace :: "char \<Rightarrow> bool" where
  "py_isspace c =
     (c \<in> set [CHR 0x09, CHR 0x0A, CHR 0x0B, CHR 0x0C, CHR 0x0D,
                CHR 0x1C, CHR 0x1D, CHR 0x1E, CHR 0x1F, CHR 0x20, CHR 0x85, CHR 0xA0])"

text \<open>\<open>s.strip()\<close>: leading and trailing whitespace removed.\<close>

definition py_strip :: "string \<Rightarrow> string" where
  "py_strip s = rev (dropWhile py_isspace (rev (dropWhile py_isspace s)))"

text \<open>\<open>s.startswith(p)\<close>.\<close>

definition startswith :: "string \<Rightarrow> string \<Rightarrow> bool" where
  "startswith s p = (take (length p) s = p)"

text \<open>\<open>text.split('\n')\<close>: never empty, \<open>''.split('\n') == ['']\<close>.\<close>

fun split_newline :: "string \<Rightarrow> string list" where
  "split_newline [] = [[]]"
| "split_newline (c # cs) =
     (if c = CHR 0x0A then [] # split_newline cs
      else (case split_newline cs of
              [] \<Rightarrow> [[c]]
            | l # ls \<Rightarrow> (c # l) # ls))"

text \<open>\<open>'\n'.join(lines)\<close>.\<close>

fun join_newline :: "string list \<Rightarrow> string" where
  "join_newline [] = []"
| "join_newline [l] = l"
| "join_newline (l # ls) = l @ CHR 0x0A # join_newline ls"

subsection \<open>The reply classifier\<close>

datatype MsgType = CODE | TEXT

text \<open>The dictionary \<open>{'type': ..., 'code': ...}\<close> that \<open>parse_reply\<close> returns.\<close>

record msg =
  type :: MsgType
  code :: "string option"

text \<open>
  The \<open>for line in lines\<close> loop of \<open>parse_reply\<close>, with its two variables
  \<open>in_code_block\<close> and \<open>code_block\<close>; \<open>continue\<close> goes on with the next line,
  \<open>break\<close> leaves with the lines collected so far.
\<close>

fun scan_lines :: "string list \<Rightarrow> bool \<Rightarrow> string list \<Rightarrow> string list" where
  "scan_lines [] in_code_block code_block = code_block"
| "scan_lines (line # lines) in_code_block code_block =
     (if startswith (py_strip line) ''```run'' then scan_lines lines True code_block
      else if startswith (py_strip line) ''```'' \<and> in_code_block then code_block
      else if in_code_block then scan_lines lines in_code_block (code_block @ [line])
      else scan_lines lines in_code_block code_block)"

definition parse_reply :: "string \<Rightarrow> msg" where
  "parse_reply text =
     (let lines = split_newline text;
          code_block = scan_lines lines False []
      in if code_block \<noteq> [] then \<lparr>type = CODE, code = Some (join_newline code_block)\<rparr>
         else \<lparr>type = TEXT, code = None\<rparr>)"

text \<open>
  Vocabulary of the statements about fences. A runnable opener is a line on which the
  first test of the loop succeeds; a plain closing fence is a line on which the first
  test fails and the fence test of the second succeeds.
\<close>

definition is_run_fence :: "string \<Rightarrow> bool" where
  "is_run_fence line = startswith (py_strip line) ''```run''"

definition is_plain_fence :: "string \<Rightarrow> bool" where
  "is_plain_fence line =
     (startswith (py_strip line) ''```'' \<and> \<not> startswith (py_strip line) ''```run'')"

text \<open>What the final \<open>if code_block\<close> of \<open>parse_reply\<close> makes of the collected lines.\<close>

definition reply_of :: "string list \<Rightarrow> msg" where
  "reply_of code_block =
     (if code_block \<noteq> [] then \<lparr>type = CODE, code = Some (join_newline code_block)\<rparr>
      else \<lparr>type = TEXT, code = None\<rparr>)"

subsection \<open>Values, exceptions and the collaborators\<close>

text \<open>Python's truth value of a \<open>str\<close> or \<open>None\<close>: \<open>None\<close> and \<open>''\<close> are false.\<close>

fun truthy :: "string option \<Rightarrow> bool" where
  "truthy None = False"
| "truthy (Some s) = (s \<noteq> [])"

text \<open>
  A JSON value as \<open>response.json()\<close> and the configuration hold it; a number is kept
  as its literal.
\<close>

datatype json =
    JNull
  | JBool bool
  | JNumber string
  | JStr string
  | JArr "json list"
  | JObj "(string \<times> json) list"

text \<open>
  The exceptions that can travel through the agent. \<open>Raised\<close> is an exception of class
  \<open>Exception\<close> raised inside a collaborator or a library call, by its name;
  \<open>Interrupt\<close> is one outside \<open>Exception\<close> (\<open>KeyboardInterrupt\<close>, \<open>SystemExit\<close>),
  which \<open>except Exception\<close> does not catch.
\<close>

datatype error =
    AttributeError string
  | KeyError string
  | TypeError
  | Raised string
  | Interrupt

fun is_Exception :: "error \<Rightarrow> bool" where
  "is_Exception Interrupt = False"
| "is_Exception _ = True"

text \<open>\<open>value[key]\<close> for a string key on a parsed JSON value; a repeated key of an object
  has its last value, as \<open>json.loads\<close> builds the dictionary.\<close>

fun subscript :: "json \<Rightarrow> string \<Rightarrow> error + json" where
  "subscript (JObj kvs) key =
     (case map_of (rev kvs) key of None \<Rightarrow> Inl (KeyError key) | Some v \<Rightarrow> Inr v)"
| "subscript _ key = Inl TypeError"

text \<open>
  What the agent hands to \<open>console.print\<close>, by message: the translated text of the
  message is fixed, the arguments are the values that vary.
\<close>

datatype message =
    StartInstruction string
  | LlmResponse string
  | StartExecute "string option"
  | ExecuteResult string
  | StartFeedback
  | EndInstruction
  | NoContext
  | PublishDisabled
  | UploadSuccess json
  | UploadFailed int string

text \<open>The arguments of \<open>requests.post\<close> in \<open>publish\<close>; \<open>metadata\<close> is the object that
  \<open>json.dumps\<close> serialises.\<close>

record post_request =
  url :: string
  content :: string
  title :: "string option"
  metadata :: json
  cert :: string
  verify :: bool

record response =
  status_code :: int
  response_text :: string
  response_json :: "error + json"

text \<open>
  What the agent does to the outside, in order: console output, calls of the model
  client and of the runner, the certificate file and the network. A model call records
  the text, the \<open>system_prompt\<close> argument and the \<open>name\<close> argument; an argument that is
  not passed is \<open>None\<close>.
\<close>

datatype event =
    Print message
  | LlmCall string "string option" "string option"
  | RunnerCall "string option"
  | RunnerSetenv string string string
  | WriteCert string
  | HttpPost post_request
  | Bell

text \<open>One capability of the \<open>api\<close> option: \<open>env\<close> maps a variable name to
  \<open>(value, description)\<close>, in the order of \<open>items()\<close>.\<close>

record api_conf =
  api_env :: "(string \<times> string \<times> string) list option"
  api_desc :: "string option"

text \<open>
  The settings, by the keys the agent reads: \<open>max_tokens\<close>, \<open>system_prompt\<close>, \<open>llm\<close>,
  \<open>api\<close>, \<open>publish.url\<close> and \<open>publish.cert\<close>; \<open>None\<close> is a missing key. The keys \<open>lang\<close>
  and \<open>record\<close> only configure the translation module and the console.
\<close>

record settings =
  cfg_max_tokens :: "int option"
  cfg_system_prompt :: "string option"
  cfg_llm :: "json option"
  cfg_api :: "(string \<times> api_conf) list option"
  cfg_publish_url :: "string option"
  cfg_publish_cert :: "string option"

text \<open>
  The collaborators are not part of \<open>agent.py\<close>; the agent is parameterised by them.
  \<open>'l\<close> is the state of the model client, \<open>'r\<close> of the runner, \<open>'v\<close> the type of the
  runner's results. A call that can raise returns a sum.
  \<^item> \<open>T\<close>: the translation \<open>T(key)\<close> of \<open>aipy.i18n\<close>;
  \<^item> \<open>llm_new\<close>: \<open>LLM(console, config['llm'], max_tokens)\<close>;
    \<open>llm_call\<close>: \<open>self.llm(text, system_prompt=..., name=...)\<close>;
    \<open>llm_history\<close>: the truth value of \<open>self.llm.history\<close>;
  \<^item> \<open>runner_new\<close>: \<open>Runner(console, config)\<close>; \<open>runner_call\<close>: \<open>self.runner(code)\<close>;
  \<^item> \<open>json_dumps\<close>: \<open>json.dumps(result, ensure_ascii=False)\<close>;
  \<^item> \<open>getlogin\<close>: \<open>os.getlogin()\<close>; \<open>export_html\<close>: \<open>console.export_html(clear=False)\<close>;
  \<^item> \<open>http_post\<close>: \<open>requests.post\<close>;
  \<^item> \<open>markup_error\<close>: the console's markup parser on a string that \<open>console.print\<close>
    is handed: \<open>Some e\<close> when rendering the string raises \<open>e\<close> (a closing tag that
    matches no open tag raises \<open>MarkupError\<close>), \<open>None\<close> when it renders.
\<close>

record ('l, 'r, 'v) collaborators =
  T :: "string \<Rightarrow> string"
  llm_new :: "json \<Rightarrow> int \<Rightarrow> 'l"
  llm_call :: "'l \<Rightarrow> string \<Rightarrow> string option \<Rightarrow> string option \<Rightarrow> (error + string option) \<times> 'l"
  llm_history :: "'l \<Rightarrow> bool"
  llm_get_last_message :: "'l \<Rightarrow> string option"
  llm_clear :: "'l \<Rightarrow> 'l"
  runner_new :: "settings \<Rightarrow> 'r"
  runner_setenv :: "'r \<Rightarrow> string \<Rightarrow> string \<Rightarrow> string \<Rightarrow> 'r"
  runner_call :: "'r \<Rightarrow> string option \<Rightarrow> (error + 'v) \<times> 'r"
  runner_clear :: "'r \<Rightarrow> 'r"
  json_dumps :: "'v \<Rightarrow> error + string"
  getlogin :: "error + string"
  export_html :: "event list \<Rightarrow> string"
  http_post :: "post_request \<Rightarrow> error + response"
  markup_error :: "string \<Rightarrow> error option"

text \<open>
  The agent's attributes, with the two pieces of the outside it writes: \<open>cert_file\<close> is
  the content of the file at \<open>CERT_PATH\<close> (\<open>None\<close>: no such file) and \<open>trace\<close> the
  events so far.
\<close>

record ('l, 'r) agent =
  settings :: settings
  instruction :: "string option"
  system_prompt :: "string option"
  max_tokens :: int
  llm :: 'l
  runner :: 'r
  cert_file :: "string option"
  trace :: "event list"

definition emit :: "event \<Rightarrow> ('l, 'r) agent \<Rightarrow> ('l, 'r) agent" where
  "emit e a = a\<lparr>trace := trace a @ [e]\<rparr>"

text \<open>
  \<open>console.print\<close> renders a string argument as console markup and any other object as
  it is. Three messages hand it a string that comes from outside: the instruction, as
  \<open>f'[red]{instruction}'\<close>; the \<open>url\<close> of the answer, when it is a string; the text of
  the answer. Rendering these can raise. The other messages hand it fixed text and
  \<open>Markdown\<close> objects.
\<close>

fun print_error :: "('l, 'r, 'v) collaborators \<Rightarrow> message \<Rightarrow> error option" where
  "print_error c (StartInstruction instr) = markup_error c (''[red]'' @ instr)"
| "print_error c (UploadSuccess (JStr s)) = markup_error c s"
| "print_error c (UploadFailed status txt) = markup_error c txt"
| "print_error c m = None"

text \<open>\<open>self._console.print(...)\<close> of a message: the exception of the rendering, or the
  message printed.\<close>

definition console_print ::
  "('l, 'r, 'v) collaborators \<Rightarrow> message \<Rightarrow> ('l, 'r) agent \<Rightarrow> (error + unit) \<times> ('l, 'r) agent" where
  "console_print c m a =
     (case print_error c m of
        None \<Rightarrow> (Inr (), emit (Print m) a)
      | Some e \<Rightarrow> (Inl e, a))"

text \<open>
  \<open>self.llm(text, system_prompt=..., name=...)\<close>: the event holds the arguments that the
  model client is called with, and the client's new state replaces the old one.
\<close>

definition llm_send ::
  "('l, 'r, 'v) collaborators \<Rightarrow> string \<Rightarrow> string option \<Rightarrow> string option \<Rightarrow> ('l, 'r) agent \<Rightarrow>
   (error + string option) \<times> ('l, 'r) agent" where
  "llm_send c txt sp nm a =
     (case llm_call c (llm a) txt sp nm of
        (r, l') \<Rightarrow> (r, (emit (LlmCall txt sp nm) a)\<lparr>llm := l'\<rparr>))"

definition MAX_TOKENS :: int where
  "MAX_TOKENS = 4096"

definition CERT_PATH :: string where
  "CERT_PATH = ''/tmp/aipy_client.crt''"

subsection \<open>Initialisation: \<open>__init__\<close> and \<open>_init\<close>\<close>

text \<open>\<open>'\n'.join(lines)\<close> raises \<open>TypeError\<close> when an item is \<open>None\<close>.\<close>

fun all_strings :: "string option list \<Rightarrow> string list option" where
  "all_strings [] = Some []"
| "all_strings (None # xs) = None"
| "all_strings (Some s # xs) = map_option ((#) s) (all_strings xs)"

definition py_join :: "string option list \<Rightarrow> error + string" where
  "py_join lines =
     (case all_strings lines of None \<Rightarrow> Inl TypeError | Some ls \<Rightarrow> Inr (join_newline ls))"

text \<open>The inner loop \<open>for name, (value, desc) in envs.items()\<close>.\<close>

fun init_envs ::
  "('l, 'r, 'v) collaborators \<Rightarrow> (string \<times> string \<times> string) list \<Rightarrow> string option list \<Rightarrow>
   ('l, 'r) agent \<Rightarrow> string option list \<times> ('l, 'r) agent" where
  "init_envs c [] lines a = (lines, a)"
| "init_envs c ((name, value, desc) # envs) lines a =
     (let value = py_strip value
      in if value = [] then init_envs c envs lines a
         else init_envs c envs (lines @ [Some (''- '' @ name @ '': '' @ desc)])
                (emit (RunnerSetenv name value desc)
                   (a\<lparr>runner := runner_setenv c (runner a) name value desc\<rparr>)))"

text \<open>The outer loop \<open>for api_name, api_conf in api.items()\<close>.\<close>

fun init_apis ::
  "('l, 'r, 'v) collaborators \<Rightarrow> (string \<times> api_conf) list \<Rightarrow> string option list \<Rightarrow>
   ('l, 'r) agent \<Rightarrow> string option list \<times> ('l, 'r) agent" where
  "init_apis c [] lines a = (lines, a)"
| "init_apis c ((api_name, conf) # apis) lines a =
     (let lines1 = lines @ [Some (''## '' @ api_name @ '' API'')];
          envs = (case api_env conf of None \<Rightarrow> [] | Some e \<Rightarrow> e);
          la = (if envs \<noteq> []
                then init_envs c envs (lines1 @ [Some (''### '' @ T c ''env_description'')]) a
                else (lines1, a));
          lines3 = (case api_desc conf of
                      None \<Rightarrow> fst la
                    | Some desc \<Rightarrow>
                        if desc \<noteq> []
                        then fst la @ [Some (''### API '' @ T c ''description'' @ [CHR 0x0A] @ desc)]
                        else fst la)
      in init_apis c apis lines3 (snd la))"

text \<open>
  \<open>_init\<close>, from the settings, the \<open>instruction\<close> attribute as it stands, and the
  outside (\<open>cert_file\<close>, \<open>trace\<close>). \<open>config['llm']\<close> raises \<open>KeyError\<close> on a missing key.
\<close>

definition init ::
  "('l, 'r, 'v) collaborators \<Rightarrow> settings \<Rightarrow> string option \<Rightarrow> string option \<Rightarrow> event list \<Rightarrow>
   error + ('l, 'r) agent" where
  "init c config instr certf tr =
     (let mt = (case cfg_max_tokens config of None \<Rightarrow> MAX_TOKENS | Some n \<Rightarrow> n);
          rn = runner_new c config
      in case cfg_llm config of
           None \<Rightarrow> Inl (KeyError ''llm'')
         | Some llm_config \<Rightarrow>
             (let a = \<lparr>settings = config, instruction = instr,
                       system_prompt = cfg_system_prompt config, max_tokens = mt,
                       llm = llm_new c llm_config mt, runner = rn,
                       cert_file = certf, trace = tr\<rparr>
              in case cfg_api config of
                   None \<Rightarrow> Inr a
                 | Some api \<Rightarrow>
                     if api = [] then Inr a
                     else (case init_apis c api [system_prompt a] a of
                             (lines, a') \<Rightarrow>
                               (case py_join lines of
                                  Inl e \<Rightarrow> Inl e
                                | Inr s \<Rightarrow> Inr (a'\<lparr>system_prompt := Some s\<rparr>)))))"

text \<open>\<open>Agent(settings)\<close>: \<open>__init__\<close> sets \<open>instruction\<close> to \<open>None\<close> and runs \<open>_init\<close>.\<close>

definition Agent ::
  "('l, 'r, 'v) collaborators \<Rightarrow> settings \<Rightarrow> string option \<Rightarrow> error + ('l, 'r) agent" where
  "Agent c config certf = init c config None certf []"

definition clear :: "('l, 'r, 'v) collaborators \<Rightarrow> ('l, 'r) agent \<Rightarrow> ('l, 'r) agent" where
  "clear c a = a\<lparr>llm := llm_clear c (llm a), runner := runner_clear c (runner a)\<rparr>"

subsection \<open>The instruction loop: \<open>process_code_reply\<close> and \<open>__call__\<close>\<close>

text \<open>
  \<open>process_code_reply\<close>: the runner is called with \<open>msg['code']\<close>, its result is
  serialised and sent to the model with no other argument. An exception of the runner,
  of \<open>json.dumps\<close> or of the model is not caught.
\<close>

definition process_code_reply ::
  "('l, 'r, 'v) collaborators \<Rightarrow> msg \<Rightarrow> ('l, 'r) agent \<Rightarrow> (error + string option) \<times> ('l, 'r) agent" where
  "process_code_reply c m a =
     (let code_block = code m;
          a1 = emit (RunnerCall code_block) (emit (Print (StartExecute code_block)) a)
      in case runner_call c (runner a1) code_block of
           (Inl e, r') \<Rightarrow> (Inl e, a1\<lparr>runner := r'\<rparr>)
         | (Inr result, r') \<Rightarrow>
             (case json_dumps c result of
                Inl e \<Rightarrow> (Inl e, a1\<lparr>runner := r'\<rparr>)
              | Inr result \<Rightarrow>
                  llm_send c result None None
                    (emit (Print StartFeedback)
                       (emit (Print (ExecuteResult result)) (a1\<lparr>runner := r'\<rparr>)))))"

text \<open>
  The \<open>while response\<close> loop of \<open>__call__\<close>. Nothing bounds the number of rounds, so the
  loop takes fuel: one unit per test of \<open>response\<close>, and \<open>None\<close> when it runs out.
\<close>

fun call_loop ::
  "nat \<Rightarrow> ('l, 'r, 'v) collaborators \<Rightarrow> string option \<Rightarrow> ('l, 'r) agent \<Rightarrow>
   ((error + unit) \<times> ('l, 'r) agent) option" where
  "call_loop 0 c response a = None"
| "call_loop (Suc n) c response a =
     (case response of
        None \<Rightarrow> Some (Inr (), a)
      | Some r \<Rightarrow>
          if r = [] then Some (Inr (), a)
          else (let a1 = emit (Print (LlmResponse r)) a;
                    m = parse_reply r
                in if type m \<noteq> CODE then Some (Inr (), a1)
                   else (case process_code_reply c m a1 of
                           (Inl e, a2) \<Rightarrow> Some (Inl e, a2)
                         | (Inr response', a2) \<Rightarrow> call_loop n c response' a2)))"

text \<open>
  \<open>__call__(instruction, api, llm)\<close>; the parameter \<open>api\<close> is not used by the method.
  \<open>name\<close> is the argument \<open>llm\<close>. The first statement prints the instruction as
  markup: when that raises, nothing else is done.
\<close>

definition call ::
  "nat \<Rightarrow> ('l, 'r, 'v) collaborators \<Rightarrow> string \<Rightarrow> string option \<Rightarrow> ('l, 'r) agent \<Rightarrow>
   ((error + unit) \<times> ('l, 'r) agent) option" where
  "call fuel c instr name a =
     (case console_print c (StartInstruction instr) a of
        (Inl e, a0) \<Rightarrow> Some (Inl e, a0)
      | (Inr u0, a0) \<Rightarrow>
          (let sp = (if llm_history c (llm a0) then None else system_prompt a0);
               a1 = (if truthy sp then a0\<lparr>instruction := Some instr\<rparr> else a0)
           in case llm_send c instr sp name a1 of
                (Inl e, a2) \<Rightarrow> Some (Inl e, a2)
              | (Inr response, a2) \<Rightarrow>
                  (case call_loop fuel c response a2 of
                     None \<Rightarrow> None
                   | Some (Inl e, a3) \<Rightarrow> Some (Inl e, a3)
                   | Some (Inr u, a3) \<Rightarrow>
                       Some (Inr (), emit Bell (emit (Print EndInstruction) a3)))))"

subsection \<open>\<open>step\<close>\<close>

text \<open>
  \<open>step\<close> calls \<open>self.process_reply(response)\<close>. The class defines \<open>parse_reply\<close> and
  \<open>process_code_reply\<close> and has no attribute \<open>process_reply\<close>, so the attribute lookup
  raises \<open>AttributeError\<close>.
\<close>

definition step ::
  "('l, 'r, 'v) collaborators \<Rightarrow> ('l, 'r) agent \<Rightarrow> (error + unit) \<times> ('l, 'r) agent" where
  "step c a =
     (let response = llm_get_last_message c (llm a)
      in if \<not> truthy response then (Inr (), emit (Print NoContext) a)
         else (Inl (AttributeError ''process_reply''), a))"

subsection \<open>\<open>publish\<close>\<close>

text \<open>\<open>author or os.getlogin()\<close>.\<close>

definition publish_author :: "('l, 'r, 'v) collaborators \<Rightarrow> string option \<Rightarrow> error + string" where
  "publish_author c author =
     (case author of
        None \<Rightarrow> getlogin c
      | Some s \<Rightarrow> if s = [] then getlogin c else Inr s)"

text \<open>The arguments of the POST: \<open>files\<close>, \<open>data\<close>, \<open>cert\<close> and \<open>verify\<close>.\<close>

definition publish_request ::
  "('l, 'r, 'v) collaborators \<Rightarrow> string \<Rightarrow> string option \<Rightarrow> string \<Rightarrow> ('l, 'r) agent \<Rightarrow> post_request" where
  "publish_request c u ttl author a =
     \<lparr>url = u, content = export_html c (trace a),
      title = (if truthy ttl then ttl else instruction a),
      metadata = JObj [(''author'', JStr author)],
      cert = CERT_PATH, verify = True\<rparr>"

text \<open>The certificate is written unless the file exists with a positive size.\<close>

definition stage_cert :: "string \<Rightarrow> ('l, 'r) agent \<Rightarrow> ('l, 'r) agent" where
  "stage_cert crt a =
     (if truthy (cert_file a) then a
      else emit (WriteCert crt) (a\<lparr>cert_file := Some crt\<rparr>))"

text \<open>
  Lines 166 to 185 of \<open>publish\<close>, after the test of \<open>url\<close> and \<open>cert\<close>. The \<open>try\<close> holds
  the POST alone; \<open>response.json()['url']\<close> is evaluated after it, before \<open>print\<close> is
  called. The handler calls \<open>self._console.print_exception(e)\<close>: the method of the
  console (\<open>rich.console.Console\<close>) takes keyword arguments only, so the call with a
  positional argument raises \<open>TypeError\<close>, and that exception leaves \<open>publish\<close>. An
  exception outside \<open>Exception\<close> is not handled.
\<close>

definition publish_upload ::
  "('l, 'r, 'v) collaborators \<Rightarrow> string \<Rightarrow> string \<Rightarrow> string option \<Rightarrow> string option \<Rightarrow>
   ('l, 'r) agent \<Rightarrow> (error + unit) \<times> ('l, 'r) agent" where
  "publish_upload c u crt ttl author a =
     (case publish_author c author of
        Inl e \<Rightarrow> (Inl e, a)
      | Inr au \<Rightarrow>
          (let req = publish_request c u ttl au a;
               a2 = emit (HttpPost req) (stage_cert crt a)
           in case http_post c req of
                Inl e \<Rightarrow>
                  if is_Exception e then (Inl TypeError, a2)
                  else (Inl e, a2)
              | Inr resp \<Rightarrow>
                  if status_code resp = 201
                  then (case response_json resp of
                          Inl e \<Rightarrow> (Inl e, a2)
                        | Inr j \<Rightarrow>
                            (case subscript j ''url'' of
                               Inl e \<Rightarrow> (Inl e, a2)
                             | Inr v \<Rightarrow> console_print c (UploadSuccess v) a2))
                  else console_print c
                         (UploadFailed (status_code resp) (response_text resp)) a2))"

definition publish ::
  "('l, 'r, 'v) collaborators \<Rightarrow> string option \<Rightarrow> string option \<Rightarrow> ('l, 'r) agent \<Rightarrow>
   (error + unit) \<times> ('l, 'r) agent" where
  "publish c ttl author a =
     (case cfg_publish_url (settings a) of
        None \<Rightarrow> (Inr (), emit (Print PublishDisabled) a)
      | Some u \<Rightarrow>
          if u = [] then (Inr (), emit (Print PublishDisabled) a)
          else (case cfg_publish_cert (settings a) of
                  None \<Rightarrow> (Inr (), emit (Print PublishDisabled) a)
                | Some crt \<Rightarrow>
                    if crt = [] then (Inr (), emit (Print PublishDisabled) a)
                    else publish_upload c u crt ttl author a))"

subsection \<open>Reading a trace\<close>

text \<open>The \<open>system_prompt\<close> arguments of the model calls of a trace, in order.\<close>

fun llm_prompts :: "event list \<Rightarrow> string option list" where
  "llm_prompts [] = []"
| "llm_prompts (LlmCall txt sp nm # es) = sp # llm_prompts es"
| "llm_prompts (e # es) = llm_prompts es"

text \<open>The arguments of the model calls of a trace, in order: the text, the
  \<open>system_prompt\<close> argument and the \<open>name\<close> argument.\<close>

type_synonym llm_args = "string \<times> string option \<times> string option"

fun llm_calls :: "event list \<Rightarrow> llm_args list" where
  "llm_calls [] = []"
| "llm_calls (LlmCall txt sp nm # es) = (txt, sp, nm) # llm_calls es"
| "llm_calls (e # es) = llm_calls es"

text \<open>The state of the model client after it was called with the given arguments, one
  call after the other.\<close>

fun replay :: "('l, 'r, 'v) collaborators \<Rightarrow> 'l \<Rightarrow> llm_args list \<Rightarrow> 'l" where
  "replay c l [] = l"
| "replay c l ((txt, sp, nm) # cs) = replay c (snd (llm_call c l txt sp nm)) cs"

text \<open>
  A session: \<open>__call__\<close> is called on one agent with one instruction after the other,
  each with its fuel and its \<open>llm\<close> argument, whatever the outcome of the call before.
\<close>

fun session ::
  "('l, 'r, 'v) collaborators \<Rightarrow> (nat \<times> string \<times> string option) list \<Rightarrow> ('l, 'r) agent \<Rightarrow>
   ('l, 'r) agent option" where
  "session c [] a = Some a"
| "session c ((fuel, instr, name) # rest) a =
     (case call fuel c instr name a of
        None \<Rightarrow> None
      | Some (res, a') \<Rightarrow> session c rest a')"

text \<open>The calls of the feedback turns: each carries a result as its text, and no other
  argument.\<close>

fun feedback_calls :: "llm_args list \<Rightarrow> bool" where
  "feedback_calls [] = True"
| "feedback_calls ((out, sp, nm) # cs) = (sp = None \<and> nm = None \<and> feedback_calls cs)"

fun is_runner_call :: "event \<Rightarrow> bool" where
  "is_runner_call (RunnerCall cb) = True"
| "is_runner_call e = False"

text \<open>A reply that the loop received (it prints each one) and \<open>parse_reply\<close> classifies
  as \<open>CODE\<close>.\<close>

fun is_code_reply :: "event \<Rightarrow> bool" where
  "is_code_reply (Print (LlmResponse r)) = (type (parse_reply r) = CODE)"
| "is_code_reply e = False"

subsection \<open>Collaborators for the closed examples\<close>

text \<open>
  A model client that answers from a script and keeps what it was sent, a runner that
  keeps its bindings and returns a fixed result, the identity as translation, a
  transport whose answer is given, and a console that rejects every text with a closing
  tag (none of the examples opens a tag).
\<close>

fun has_closing_tag :: "string \<Rightarrow> bool" where
  "has_closing_tag [] = False"
| "has_closing_tag (x # xs) = (startswith (x # xs) ''[/'' \<or> has_closing_tag xs)"

record script_llm =
  history :: "string list"
  pending :: "string option list"
  last_message :: "string option"

definition script_call ::
  "script_llm \<Rightarrow> string \<Rightarrow> string option \<Rightarrow> string option \<Rightarrow> (error + string option) \<times> script_llm" where
  "script_call l txt sp nm =
     (case pending l of
        [] \<Rightarrow> (Inr None, l\<lparr>history := history l @ [txt]\<rparr>)
      | r # rs \<Rightarrow>
          (Inr r, \<lparr>history = history l @ [txt], pending = rs,
                   last_message = (case r of None \<Rightarrow> last_message l | Some x \<Rightarrow> Some x)\<rparr>))"

definition stub ::
  "(error + response) \<Rightarrow> (script_llm, (string \<times> string \<times> string) list, string) collaborators" where
  "stub posted =
     \<lparr>T = (\<lambda>key. key),
      llm_new = (\<lambda>conf mt. \<lparr>history = [], pending = [], last_message = None\<rparr>),
      llm_call = script_call,
      llm_history = (\<lambda>l. history l \<noteq> []),
      llm_get_last_message = last_message,
      llm_clear = (\<lambda>l. l\<lparr>history := [], last_message := None\<rparr>),
      runner_new = (\<lambda>config. []),
      runner_setenv = (\<lambda>r n v d. r @ [(n, v, d)]),
      runner_call = (\<lambda>r cb. (Inr ''done'', r)),
      runner_clear = (\<lambda>r. []),
      json_dumps = (\<lambda>v. Inr v),
      getlogin = Inr ''operator'',
      export_html = (\<lambda>tr. ''<html></html>''),
      http_post = (\<lambda>req. posted),
      markup_error = (\<lambda>s. if has_closing_tag s then Some (Raised ''MarkupError'') else None)\<rparr>"

text \<open>
  Any collaborators, with a model client that also keeps the arguments of every call
  it receives; and an agent on such a client, with nothing received yet.
\<close>

definition recording ::
  "('l, 'r, 'v) collaborators \<Rightarrow> ('l \<times> llm_args list, 'r, 'v) collaborators" where
  "recording c =
     \<lparr>T = T c,
      llm_new = (\<lambda>conf mt. (llm_new c conf mt, [])),
      llm_call = (\<lambda>la txt sp nm.
                    case llm_call c (fst la) txt sp nm of
                      (r, l') \<Rightarrow> (r, (l', snd la @ [(txt, sp, nm)]))),
      llm_history = (\<lambda>la. llm_history c (fst la)),
      llm_get_last_message = (\<lambda>la. llm_get_last_message c (fst la)),
      llm_clear = (\<lambda>la. (llm_clear c (fst la), snd la)),
      runner_new = runner_new c,
      runner_setenv = runner_setenv c,
      runner_call = runner_call c,
      runner_clear = runner_clear c,
      json_dumps = json_dumps c,
      getlogin = getlogin c,
      export_html = export_html c,
      http_post = http_post c,
      markup_error = markup_error c\<rparr>"

definition with_log :: "('l, 'r) agent \<Rightarrow> ('l \<times> llm_args list, 'r) agent" where
  "with_log a =
     \<lparr>settings = settings a, instruction = instruction a, system_prompt = system_prompt a,
      max_tokens = max_tokens a, llm = (llm a, []), runner = runner a,
      cert_file = cert_file a, trace = trace a\<rparr>"


definition no_settings :: settings where
  "no_settings =
     \<lparr>cfg_max_tokens = None, cfg_system_prompt = None, cfg_llm = None, cfg_api = None,
      cfg_publish_url = None, cfg_publish_cert = None\<rparr>"

text \<open>An agent whose model client has the given history, script and last message.\<close>

definition scripted_agent ::
  "settings \<Rightarrow> string option \<Rightarrow> string list \<Rightarrow> string option list \<Rightarrow> string option \<Rightarrow>
   (script_llm, (string \<times> string \<times> string) list) agent" where
  "scripted_agent config prompt hist script lastm =
     \<lparr>settings = config, instruction = None, system_prompt = prompt, max_tokens = MAX_TOKENS,
      llm = \<lparr>history = hist, pending = script, last_message = lastm\<rparr>, runner = [],
      cert_file = None, trace = []\<rparr>"

text \<open>The configuration of the weather scenario, as the scenario gives it: with the keys
  \<open>system_prompt\<close> and \<open>api\<close> only.\<close>

definition weather_config :: settings where
  "weather_config =
     no_settings
       \<lparr>cfg_system_prompt := Some ''Base'',
        cfg_api := Some [(''Weather'',
                          \<lparr>api_env = Some [(''API_KEY'', ''abc'', ''key'')],
                           api_desc = Some ''Gets weather''\<rparr>)]\<rparr>"

text \<open>Settings with a publish URL and a certificate, and an agent that has them.\<close>

definition pub_settings :: settings where
  "pub_settings =
     no_settings\<lparr>cfg_publish_url := Some ''https://example.org/publish'',
                 cfg_publish_cert := Some ''CERT''\<rparr>"

definition pub_agent :: "(script_llm, (string \<times> string \<times> string) list) agent" where
  "pub_agent = scripted_agent pub_settings None [] [] None"

text \<open>Answers of the server: a creation with a URL, one whose body is not JSON, two
  whose JSON object has no \<open>url\<close>, and a failure.\<close>

definition created :: response where
  "created =
     \<lparr>status_code = 201, response_text = ''created'',
      response_json = Inr (JObj [(''url'', JStr ''https://example.org/r/1'')])\<rparr>"

definition created_not_json :: response where
  "created_not_json =
     \<lparr>status_code = 201, response_text = ''<html>created</html>'',
      response_json = Inl (Raised ''JSONDecodeError'')\<rparr>"

definition created_no_url :: response where
  "created_no_url =
     \<lparr>status_code = 201, response_text = ''created'',
      response_json = Inr (JObj [(''id'', JNumber ''1'')])\<rparr>"

definition created_empty :: response where
  "created_empty =
     \<lparr>status_code = 201, response_text = ''{}'', response_json = Inr (JObj [])\<rparr>"

definition server_error :: response where
  "server_error =
     \<lparr>status_code = 500, response_text = ''Internal Server Error'',
      response_json = Inl (Raised ''JSONDecodeError'')\<rparr>"

text \<open>Two answers whose text the console does not render: a creation whose \<open>url\<close> has
  a closing tag with no opening tag, and a failure whose body has one.\<close>

definition created_tagged :: response where
  "created_tagged =
     \<lparr>status_code = 201, response_text = ''created'',
      response_json = Inr (JObj [(''url'', JStr ''https://example.org/r/[/1]'')])\<rparr>"

definition server_error_tagged :: response where
  "server_error_tagged =
     \<lparr>status_code = 500, response_text = ''<b>Internal[/b] Server Error'',
      response_json = Inl (Raised ''JSONDecodeError'')\<rparr>"

text \<open>A reply with a runnable fence, a plain reply, and a fresh agent with a system
  prompt whose model answers with the first, then with the second.\<close>

definition code_reply :: string where
  "code_reply = ''Listing.\<newline>```run\<newline>print(1)\<newline>```''"

definition text_reply :: string where
  "text_reply = ''All done.''"

definition fresh_agent :: "(script_llm, (string \<times> string \<times> string) list) agent" where
  "fresh_agent =
     scripted_agent no_settings (Some ''You are an agent.'') []
       [Some code_reply, Some text_reply, Some text_reply] None"

text \<open>An agent whose model answers with two \<open>CODE\<close> replies before the plain one.\<close>

definition busy_agent :: "(script_llm, (string \<times> string \<times> string) list) agent" where
  "busy_agent =
     scripted_agent no_settings (Some ''You are an agent.'') []
       [Some code_reply, Some code_reply, Some text_reply] None"

text \<open>\<open>pub_agent\<close> after the certificate was written and the POST was sent, with the
  title \<open>Report\<close> and the login name as author.\<close>

definition posted_agent :: "(script_llm, (string \<times> string \<times> string) list) agent" where
  "posted_agent = pub_agent\<lparr>cert_file := Some ''CERT'',
       trace := [WriteCert ''CERT'',
                 HttpPost \<lparr>url = ''https://example.org/publish'', content = ''<html></html>'',
                           title = Some ''Report'',
                           metadata = JObj [(''author'', JStr ''operator'')],
                           cert = ''/tmp/aipy_client.crt'', verify = True\<rparr>]\<rparr>"

subsection \<open>Facts about the scanner\<close>

lemma parse_reply_reply_of:
  "parse_reply text = reply_of (scan_lines (split_newline text) False [])"
  by (simp add: parse_reply_def reply_of_def)

lemma scan_outside_skip:
  "\<forall>l \<in> set pre. \<not> is_run_fence l \<Longrightarrow>
   scan_lines (pre @ rest) False acc = scan_lines rest False acc"
  by (induction pre) (simp_all add: is_run_fence_def)

lemma scan_outside_no_fence:
  "\<forall>l \<in> set ls. \<not> is_run_fence l \<Longrightarrow> scan_lines ls False acc = acc"
  using scan_outside_skip [of ls "[]" acc] by simp

lemma scan_inside_collect:
  "\<forall>l \<in> set body. \<not> is_plain_fence l \<Longrightarrow>
   scan_lines (body @ rest) True acc =
   scan_lines rest True (acc @ filter (\<lambda>l. \<not> is_run_fence l) body)"
proof (induction body arbitrary: acc)
  case Nil
  then show ?case by simp
next
  case (Cons l body)
  show ?case
  proof (cases "is_run_fence l")
    case True
    with Cons show ?thesis by (simp add: is_run_fence_def)
  next
    case False
    with Cons.prems have "\<not> startswith (py_strip l) ''```''"
      by (simp add: is_plain_fence_def is_run_fence_def)
    with False Cons show ?thesis by (simp add: is_run_fence_def)
  qed
qed

lemma scan_inside_close:
  "is_plain_fence cls \<Longrightarrow> scan_lines (cls # post) True acc = acc"
  by (simp add: is_plain_fence_def)

lemma scan_open:
  "is_run_fence opn \<Longrightarrow> scan_lines ([opn] @ rest) b acc = scan_lines rest True acc"
  by (simp add: is_run_fence_def)

lemma scan_closed_fence:
  assumes "\<forall>l \<in> set pre. \<not> is_run_fence l"
    and "is_run_fence opn"
    and "\<forall>l \<in> set body. \<not> is_plain_fence l"
    and "is_plain_fence cls"
  shows "scan_lines (pre @ [opn] @ body @ [cls] @ post) False [] =
         filter (\<lambda>l. \<not> is_run_fence l) body"
proof -
  have "scan_lines (pre @ [opn] @ body @ [cls] @ post) False [] =
        scan_lines ([opn] @ body @ [cls] @ post) False []"
    using assms(1) by (rule scan_outside_skip)
  also have "\<dots> = scan_lines (body @ [cls] @ post) True []"
    using scan_open [OF assms(2)] by simp
  also have "\<dots> = scan_lines ([cls] @ post) True ([] @ filter (\<lambda>l. \<not> is_run_fence l) body)"
    using assms(3) by (rule scan_inside_collect)
  also have "\<dots> = filter (\<lambda>l. \<not> is_run_fence l) body"
    using scan_inside_close [OF assms(4)] by simp
  finally show ?thesis .
qed

text \<open>A reply in which a runnable opener is followed, later, by a plain closing fence
  has the form that \<open>scan_closed_fence\<close> asks for.\<close>

lemma closed_fence_decomposition:
  assumes "i < j" and "j < length ls"
    and "is_run_fence (ls ! i)" and "is_plain_fence (ls ! j)"
  shows "\<exists>pre opn body cls post.
           ls = pre @ [opn] @ body @ [cls] @ post \<and>
           (\<forall>l \<in> set pre. \<not> is_run_fence l) \<and> is_run_fence opn \<and>
           (\<forall>l \<in> set body. \<not> is_plain_fence l) \<and> is_plain_fence cls"
proof -
  from assms have "\<exists>l \<in> set ls. is_run_fence l"
    by (metis less_trans nth_mem)
  from split_list_first_prop [OF this] obtain pre opn rest where
    ls: "ls = pre @ opn # rest" and opn: "is_run_fence opn" and
    pre: "\<forall>l \<in> set pre. \<not> is_run_fence l"
    by blast
  have "length pre \<le> i"
  proof (rule ccontr)
    assume "\<not> length pre \<le> i"
    then have "i < length pre" by simp
    then have "ls ! i \<in> set pre" by (simp add: ls nth_append)
    with pre assms(3) show False by blast
  qed
  with assms(1) have "length pre < j" by simp
  then have "ls ! j = rest ! (j - Suc (length pre))"
    by (simp add: ls nth_append)
  moreover from assms(2) \<open>length pre < j\<close> have "j - Suc (length pre) < length rest"
    by (simp add: ls)
  ultimately have "\<exists>l \<in> set rest. is_plain_fence l"
    using assms(4) by (metis nth_mem)
  from split_list_first_prop [OF this] obtain body cls post where
    "rest = body @ cls # post" "is_plain_fence cls" "\<forall>l \<in> set body. \<not> is_plain_fence l"
    by blast
  with ls opn pre show ?thesis by (intro exI [of _ pre] exI [of _ opn] exI [of _ body] exI [of _ cls] exI [of _ post]) simp
qed

text \<open>The definitions that evaluate the line tests on a given string.\<close>

lemmas str_eval = py_strip_def startswith_def py_isspace_def is_run_fence_def is_plain_fence_def

subsection \<open>Facts about the trace and the loop\<close>

lemma emit_simps [simp]:
  "trace (emit e a) = trace a @ [e]"
  "llm (emit e a) = llm a"
  "runner (emit e a) = runner a"
  "system_prompt (emit e a) = system_prompt a"
  "instruction (emit e a) = instruction a"
  "settings (emit e a) = settings a"
  "cert_file (emit e a) = cert_file a"
  by (simp_all add: emit_def)

lemma llm_prompts_append: "llm_prompts (xs @ ys) = llm_prompts xs @ llm_prompts ys"
  by (induction xs rule: llm_prompts.induct) simp_all

lemma llm_calls_append: "llm_calls (xs @ ys) = llm_calls xs @ llm_calls ys"
  by (induction xs rule: llm_calls.induct) simp_all

lemma llm_prompts_calls: "llm_prompts ev = map (\<lambda>x. fst (snd x)) (llm_calls ev)"
  by (induction ev rule: llm_calls.induct) simp_all

lemma replay_append: "replay c l (xs @ ys) = replay c (replay c l xs) ys"
  by (induction xs arbitrary: l) auto

lemma feedback_calls_append:
  "feedback_calls (xs @ ys) = (feedback_calls xs \<and> feedback_calls ys)"
  by (induction xs rule: feedback_calls.induct) simp_all

lemma feedback_calls_prompts:
  "feedback_calls cs \<Longrightarrow> map (\<lambda>x. fst (snd x)) cs = replicate (length cs) None"
  by (induction cs rule: feedback_calls.induct) simp_all



text \<open>A model call adds its event and puts the client's new state in place.\<close>

lemma llm_send_effect:
  assumes "llm_send c txt sp nm a = (r, a')"
  shows "llm_call c (llm a) txt sp nm = (r, llm a')"
    and "trace a' = trace a @ [LlmCall txt sp nm]"
    and "system_prompt a' = system_prompt a" and "instruction a' = instruction a"
    and "runner a' = runner a" and "settings a' = settings a"
  using assms by (auto simp: llm_send_def split: prod.splits)

text \<open>One round: the runner is called once, and the model, if it is reached, is sent
  the result with no system prompt.\<close>

lemma process_code_reply_effect:
  assumes "process_code_reply c m a = (r, a')"
  shows "\<exists>ev. trace a' = trace a @ ev \<and> length (filter is_runner_call ev) = 1 \<and>
              filter is_code_reply ev = [] \<and> feedback_calls (llm_calls ev) \<and>
              llm a' = replay c (llm a) (llm_calls ev) \<and>
              system_prompt a' = system_prompt a \<and> instruction a' = instruction a"
proof -
  define a1 where "a1 = emit (RunnerCall (code m)) (emit (Print (StartExecute (code m))) a)"
  obtain rr r' where rc: "runner_call c (runner a1) (code m) = (rr, r')"
    by (cases "runner_call c (runner a1) (code m)")
  show ?thesis
  proof (cases rr)
    case (Inl e)
    with rc assms have "a' = a1\<lparr>runner := r'\<rparr>"
      by (simp add: process_code_reply_def Let_def a1_def)
    then show ?thesis
      by (intro exI [of _ "[Print (StartExecute (code m)), RunnerCall (code m)]"])
         (simp add: a1_def)
  next
    case (Inr v)
    show ?thesis
    proof (cases "json_dumps c v")
      case (Inl e)
      with Inr rc assms have "a' = a1\<lparr>runner := r'\<rparr>"
        by (simp add: process_code_reply_def Let_def a1_def)
      then show ?thesis
        by (intro exI [of _ "[Print (StartExecute (code m)), RunnerCall (code m)]"])
           (simp add: a1_def)
    next
      case out: (Inr out)
      define a2 where "a2 = emit (Print StartFeedback)
                              (emit (Print (ExecuteResult out)) (a1\<lparr>runner := r'\<rparr>))"
      from out Inr rc assms have send: "llm_send c out None None a2 = (r, a')"
        by (simp add: process_code_reply_def Let_def a1_def a2_def)
      note e = llm_send_effect [OF send]
      have a2: "trace a2 = trace a @ [Print (StartExecute (code m)), RunnerCall (code m),
                  Print (ExecuteResult out), Print StartFeedback]"
               "llm a2 = llm a" "system_prompt a2 = system_prompt a"
               "instruction a2 = instruction a"
        by (simp_all add: a2_def a1_def)
      from e(1) have "llm a' = snd (llm_call c (llm a2) out None None)" by simp
      with e a2 show ?thesis
        by (intro exI [of _ "[Print (StartExecute (code m)), RunnerCall (code m),
                  Print (ExecuteResult out), Print StartFeedback, LlmCall out None None]"])
           simp
    qed
  qed
qed

lemma call_loop_effect:
  "call_loop n c resp a = Some (r, a') \<Longrightarrow>
   \<exists>ev. trace a' = trace a @ ev \<and>
        length (filter is_runner_call ev) = length (filter is_code_reply ev) \<and>
        feedback_calls (llm_calls ev) \<and>
        llm a' = replay c (llm a) (llm_calls ev) \<and>
        system_prompt a' = system_prompt a \<and> instruction a' = instruction a"
proof (induction n arbitrary: resp a)
  case 0
  then show ?case by simp
next
  case (Suc n)
  show ?case
  proof (cases resp)
    case None
    with Suc.prems show ?thesis by simp
  next
    case (Some t)
    show ?thesis
    proof (cases "t = [] \<or> type (parse_reply t) \<noteq> CODE")
      case True
      with Some Suc.prems show ?thesis
        by (auto simp: Let_def split: if_splits
                 intro!: exI [of _ "[Print (LlmResponse t)]"])
    next
      case False
      define a1 where "a1 = emit (Print (LlmResponse t)) a"
      obtain r1 a2 where pcr: "process_code_reply c (parse_reply t) a1 = (r1, a2)"
        by (cases "process_code_reply c (parse_reply t) a1")
      from process_code_reply_effect [OF pcr] obtain ev1 where
        ev1: "trace a2 = trace a1 @ ev1" "length (filter is_runner_call ev1) = 1"
             "filter is_code_reply ev1 = []" "feedback_calls (llm_calls ev1)"
             "llm a2 = replay c (llm a1) (llm_calls ev1)"
             "system_prompt a2 = system_prompt a1" "instruction a2 = instruction a1"
        by blast
      have a1: "trace a1 = trace a @ [Print (LlmResponse t)]" "llm a1 = llm a"
               "system_prompt a1 = system_prompt a" "instruction a1 = instruction a"
        by (simp_all add: a1_def)
      show ?thesis
      proof (cases r1)
        case (Inl e)
        with False Some Suc.prems pcr have "a' = a2"
          by (simp add: Let_def a1_def)
        with ev1 a1 False show ?thesis
          by (intro exI [of _ "Print (LlmResponse t) # ev1"]) simp
      next
        case (Inr resp')
        with False Some Suc.prems pcr have "call_loop n c resp' a2 = Some (r, a')"
          by (simp add: Let_def a1_def)
        from Suc.IH [OF this] obtain ev2 where
          ev2: "trace a' = trace a2 @ ev2"
               "length (filter is_runner_call ev2) = length (filter is_code_reply ev2)"
               "feedback_calls (llm_calls ev2)"
               "llm a' = replay c (llm a2) (llm_calls ev2)"
               "system_prompt a' = system_prompt a2" "instruction a' = instruction a2"
          by blast
        with ev1 a1 False show ?thesis
          by (intro exI [of _ "Print (LlmResponse t) # ev1 @ ev2"])
             (simp add: llm_calls_append replay_append feedback_calls_append)
      qed
    qed
  qed
qed

text \<open>\<open>__call__\<close> when the instruction does not render.\<close>

lemma call_markup_error:
  "markup_error c (''[red]'' @ instr) = Some e \<Longrightarrow> call fuel c instr name a = Some (Inl e, a)"
  by (simp add: call_def console_print_def)

text \<open>\<open>__call__\<close> after its first model call.\<close>

lemma call_unfold:
  assumes "markup_error c (''[red]'' @ instr) = None"
    and "sp = (if llm_history c (llm a) then None else system_prompt a)"
    and "a1 = (if truthy sp then (emit (Print (StartInstruction instr)) a)\<lparr>instruction := Some instr\<rparr>
               else emit (Print (StartInstruction instr)) a)"
    and "llm_send c instr sp name a1 = (r, a2)"
  shows "call fuel c instr name a =
           (case r of
              Inl e \<Rightarrow> Some (Inl e, a2)
            | Inr response \<Rightarrow>
                (case call_loop fuel c response a2 of
                   None \<Rightarrow> None
                 | Some (Inl e, a3) \<Rightarrow> Some (Inl e, a3)
                 | Some (Inr u, a3) \<Rightarrow>
                     Some (Inr (), emit Bell (emit (Print EndInstruction) a3))))"
proof -
  have cp: "console_print c (StartInstruction instr) a =
              (Inr (), emit (Print (StartInstruction instr)) a)"
    using assms(1) by (simp add: console_print_def)
  show ?thesis
    unfolding call_def cp prod.case sum.case Let_def emit_simps
      assms(2) [symmetric] assms(3) [symmetric]
    using assms(4) by simp
qed

lemma call_effect:
  assumes "call fuel c instr name a = Some (res, a')"
    and "markup_error c (''[red]'' @ instr) = None"
  shows "\<exists>ev. trace a' =
                trace a @ [Print (StartInstruction instr),
                           LlmCall instr (if llm_history c (llm a) then None
                                          else system_prompt a) name] @ ev \<and>
              length (filter is_runner_call ev) = length (filter is_code_reply ev) \<and>
              feedback_calls (llm_calls ev) \<and>
              llm a' = replay c (llm a)
                         ((instr, if llm_history c (llm a) then None else system_prompt a, name)
                          # llm_calls ev) \<and>
              system_prompt a' = system_prompt a \<and>
              instruction a' =
                (if \<not> llm_history c (llm a) \<and> truthy (system_prompt a) then Some instr
                 else instruction a)"
proof -
  define sp where "sp = (if llm_history c (llm a) then None else system_prompt a)"
  define a1 where
    "a1 = (if truthy sp then (emit (Print (StartInstruction instr)) a)\<lparr>instruction := Some instr\<rparr>
           else emit (Print (StartInstruction instr)) a)"
  obtain r a2 where send: "llm_send c instr sp name a1 = (r, a2)"
    by (cases "llm_send c instr sp name a1")
  note e = llm_send_effect [OF send]
  have a1: "trace a1 = trace a @ [Print (StartInstruction instr)]" "llm a1 = llm a"
           "system_prompt a1 = system_prompt a"
           "instruction a1 =
              (if \<not> llm_history c (llm a) \<and> truthy (system_prompt a) then Some instr
               else instruction a)"
    by (auto simp: a1_def sp_def)
  from e a1 have a2:
    "trace a2 = trace a @ [Print (StartInstruction instr), LlmCall instr sp name]"
    "llm a2 = replay c (llm a) [(instr, sp, name)]"
    "system_prompt a2 = system_prompt a"
    "instruction a2 =
       (if \<not> llm_history c (llm a) \<and> truthy (system_prompt a) then Some instr
        else instruction a)"
    by simp_all
  note unf = call_unfold [OF assms(2) sp_def a1_def send, of fuel]
  show ?thesis
  proof (cases r)
    case (Inl e)
    with unf assms(1) have "a' = a2" by simp
    with a2 show ?thesis by (intro exI [of _ "[]"]) (simp add: sp_def)
  next
    case (Inr response)
    with unf assms(1) obtain r3 a3 where
      loop: "call_loop fuel c response a2 = Some (r3, a3)"
      by (auto split: option.splits)
    from call_loop_effect [OF loop] obtain ev where
      ev: "trace a3 = trace a2 @ ev"
          "length (filter is_runner_call ev) = length (filter is_code_reply ev)"
          "feedback_calls (llm_calls ev)"
          "llm a3 = replay c (llm a2) (llm_calls ev)"
          "system_prompt a3 = system_prompt a2"
          "instruction a3 = instruction a2"
      by blast
    show ?thesis
    proof (cases r3)
      case (Inl e)
      with unf Inr loop assms(1) have "a' = a3" by simp
      with ev a2 show ?thesis by (intro exI [of _ ev]) (simp add: sp_def)
    next
      case Inr3: (Inr u)
      with unf Inr loop assms(1) have "a' = emit Bell (emit (Print EndInstruction) a3)" by simp
      with ev a2 show ?thesis
        by (intro exI [of _ "ev @ [Print EndInstruction, Bell]"])
           (simp add: sp_def llm_calls_append)
    qed
  qed
qed









text \<open>Every run, whether the instruction renders or not.\<close>

lemma call_run:
  assumes "call fuel c instr name a = Some (res, a')"
  shows "\<exists>ev. trace a' = trace a @ ev \<and> system_prompt a' = system_prompt a \<and>
              llm a' = replay c (llm a) (llm_calls ev) \<and>
              length (filter is_runner_call ev) = length (filter is_code_reply ev) \<and>
              (llm_calls ev = [] \<or>
               (\<exists>rest. llm_calls ev =
                   (instr, if llm_history c (llm a) then None else system_prompt a, name) # rest \<and>
                 feedback_calls rest))"
proof (cases "markup_error c (''[red]'' @ instr)")
  case (Some e)
  with assms have "a' = a" by (simp add: call_markup_error)
  then show ?thesis by (intro exI [of _ "[]"]) simp
next
  case None
  from call_effect [OF assms None] obtain ev where
    ev: "trace a' = trace a @ [Print (StartInstruction instr),
           LlmCall instr (if llm_history c (llm a) then None else system_prompt a) name] @ ev"
        "length (filter is_runner_call ev) = length (filter is_code_reply ev)"
        "feedback_calls (llm_calls ev)"
        "llm a' = replay c (llm a)
           ((instr, if llm_history c (llm a) then None else system_prompt a, name) # llm_calls ev)"
        "system_prompt a' = system_prompt a"
    by blast
  then show ?thesis
    by (intro exI [of _ "[Print (StartInstruction instr),
           LlmCall instr (if llm_history c (llm a) then None else system_prompt a) name] @ ev"])
       simp
qed

text \<open>A client whose history is not empty once it has been called.\<close>

lemma replay_history:
  assumes H: "\<forall>l t sp nm. llm_history c (snd (llm_call c l t sp nm))"
  shows "cs \<noteq> [] \<Longrightarrow> llm_history c (replay c l cs)"
proof (induction cs arbitrary: l)
  case Nil
  then show ?case by simp
next
  case (Cons x cs)
  obtain t sp nm where x: "x = (t, sp, nm)" by (cases x)
  show ?case
  proof (cases "cs = []")
    case True
    with x H show ?thesis by simp
  next
    case False
    with Cons.IH x show ?thesis by simp
  qed
qed

lemma session_effect:
  assumes H: "\<forall>l t sp nm. llm_history c (snd (llm_call c l t sp nm))"
  shows "session c runs a = Some a' \<Longrightarrow>
         \<exists>ev. trace a' = trace a @ ev \<and> system_prompt a' = system_prompt a \<and>
              llm a' = replay c (llm a) (llm_calls ev) \<and>
              (llm_calls ev = [] \<or>
               (\<exists>k. llm_prompts ev =
                  (if llm_history c (llm a) then None else system_prompt a) # replicate k None))"
proof (induction runs arbitrary: a)
  case Nil
  then show ?case by (intro exI [of _ "[]"]) simp
next
  case (Cons run runs)
  obtain fuel instr name where run: "run = (fuel, instr, name)" by (cases run)
  with Cons.prems obtain res a1 where
    first: "call fuel c instr name a = Some (res, a1)" and
    rest: "session c runs a1 = Some a'"
    by (auto split: option.splits)
  from call_run [OF first] obtain ev1 where
    ev1: "trace a1 = trace a @ ev1" "system_prompt a1 = system_prompt a"
         "llm a1 = replay c (llm a) (llm_calls ev1)"
         "llm_calls ev1 = [] \<or>
          (\<exists>rest. llm_calls ev1 =
              (instr, if llm_history c (llm a) then None else system_prompt a, name) # rest \<and>
            feedback_calls rest)"
    by blast
  from Cons.IH [OF rest] obtain ev2 where
    ev2: "trace a' = trace a1 @ ev2" "system_prompt a' = system_prompt a1"
         "llm a' = replay c (llm a1) (llm_calls ev2)"
         "llm_calls ev2 = [] \<or>
          (\<exists>k. llm_prompts ev2 =
             (if llm_history c (llm a1) then None else system_prompt a1) # replicate k None)"
    by blast
  have base: "trace a' = trace a @ (ev1 @ ev2)" "system_prompt a' = system_prompt a"
             "llm a' = replay c (llm a) (llm_calls (ev1 @ ev2))"
    using ev1 ev2 by (simp_all add: llm_calls_append replay_append)
  have "llm_calls (ev1 @ ev2) = [] \<or>
        (\<exists>k. llm_prompts (ev1 @ ev2) =
           (if llm_history c (llm a) then None else system_prompt a) # replicate k None)"
  proof (cases "llm_calls ev1 = []")
    case True
    then have "llm a1 = llm a" "llm_prompts ev1 = []"
      using ev1(3) by (simp_all add: llm_prompts_calls)
    with ev1(2) ev2(4) True show ?thesis
      by (auto simp: llm_calls_append llm_prompts_append)
  next
    case False
    with ev1(4) obtain rest1 where
      r1: "llm_calls ev1 =
             (instr, if llm_history c (llm a) then None else system_prompt a, name) # rest1"
          "feedback_calls rest1"
      by blast
    define outs where "outs = rest1"
    from feedback_calls_prompts [OF r1(2)] r1(1) have p1: "llm_prompts ev1 =
        (if llm_history c (llm a) then None else system_prompt a) # replicate (length outs) None"
      by (simp add: llm_prompts_calls outs_def)
    from replay_history [OF H False] ev1(3) have hist: "llm_history c (llm a1)" by simp
    show ?thesis
    proof (cases "llm_calls ev2 = []")
      case True
      then have "llm_prompts ev2 = []" by (simp add: llm_prompts_calls)
      with p1 show ?thesis by (auto simp: llm_prompts_append)
    next
      case False
      with ev2(4) hist obtain k where "llm_prompts ev2 = None # replicate k None" by auto
      with p1 have "llm_prompts (ev1 @ ev2) =
          (if llm_history c (llm a) then None else system_prompt a)
          # replicate (length outs + Suc k) None"
        by (simp add: llm_prompts_append replicate_add replicate_append_same)
      then show ?thesis by blast
    qed
  qed
  with base show ?case by - (rule exI [of _ "ev1 @ ev2"], simp)
qed

text \<open>The scripted model client: its history is not empty once it was called, and a
  \<open>CODE\<close> answer takes one \<open>CODE\<close> reply from its script. The client that keeps the
  arguments has the history of the client below it.\<close>

lemma stub_history:
  "\<forall>l t sp nm. llm_history (stub p) (snd (llm_call (stub p) l t sp nm))"
  by (auto simp: stub_def script_call_def split: list.splits)

lemma recording_history:
  "\<forall>l t sp nm. llm_history c (snd (llm_call c l t sp nm)) \<Longrightarrow>
   \<forall>l t sp nm. llm_history (recording c) (snd (llm_call (recording c) l t sp nm))"
  by (auto simp: recording_def split: prod.splits) (metis snd_conv)


subsection \<open>Facts about \<open>publish\<close>\<close>

lemma publish_reaches_upload:
  "cfg_publish_url (settings a) = Some u \<Longrightarrow> u \<noteq> [] \<Longrightarrow>
   cfg_publish_cert (settings a) = Some crt \<Longrightarrow> crt \<noteq> [] \<Longrightarrow>
   publish c ttl author a = publish_upload c u crt ttl author a"
  by (simp add: publish_def)

text \<open>The handler of the POST: its own call raises.\<close>

lemma publish_post_exception:
  "cfg_publish_url (settings a) = Some u \<Longrightarrow> u \<noteq> [] \<Longrightarrow>
   cfg_publish_cert (settings a) = Some crt \<Longrightarrow> crt \<noteq> [] \<Longrightarrow>
   publish_author c author = Inr au \<Longrightarrow>
   http_post c (publish_request c u ttl au a) = Inl e \<Longrightarrow> is_Exception e \<Longrightarrow>
   publish c ttl author a =
     (Inl TypeError, emit (HttpPost (publish_request c u ttl au a)) (stage_cert crt a))"
  by (simp add: publish_reaches_upload publish_upload_def)

subsection \<open>Claims about \<open>parse_reply\<close>\<close>

text \<open>
  C3, as amended. Let the lines of a reply be \<open>pre\<close>, a runnable opener \<open>opn\<close> (the
  first one: no line of \<open>pre\<close> is a runnable opener), the interior \<open>body\<close> (no line of
  it is a plain closing fence), a plain closing fence \<open>cls\<close>, and anything after. Then
  \<open>parse_reply\<close> returns \<open>CODE\<close> with the lines of \<open>body\<close> that are not themselves
  runnable openers, joined by line breaks, the two fence lines excluded, when there is
  at least one such line; when there is none (an empty interior) it returns \<open>TEXT\<close>
  with no code. For a reply with no runnable opener it returns \<open>TEXT\<close> with no code.
\<close>

theorem parse_reply_closed_fence:
  "(split_newline text = pre @ [opn] @ body @ [cls] @ post \<and>
    (\<forall>l \<in> set pre. \<not> is_run_fence l) \<and> is_run_fence opn \<and>
    (\<forall>l \<in> set body. \<not> is_plain_fence l) \<and> is_plain_fence cls
    \<longrightarrow> parse_reply text =
         (let kept = filter (\<lambda>l. \<not> is_run_fence l) body
          in if kept = [] then \<lparr>type = TEXT, code = None\<rparr>
             else \<lparr>type = CODE, code = Some (join_newline kept)\<rparr>)) \<and>
   ((\<forall>l \<in> set (split_newline text). \<not> is_run_fence l)
    \<longrightarrow> parse_reply text = \<lparr>type = TEXT, code = None\<rparr>)"
proof (intro conjI impI)
  assume h: "split_newline text = pre @ [opn] @ body @ [cls] @ post \<and>
    (\<forall>l \<in> set pre. \<not> is_run_fence l) \<and> is_run_fence opn \<and>
    (\<forall>l \<in> set body. \<not> is_plain_fence l) \<and> is_plain_fence cls"
  then have "scan_lines (split_newline text) False [] = filter (\<lambda>l. \<not> is_run_fence l) body"
    using scan_closed_fence [of pre opn body cls post] by simp
  then show "parse_reply text =
         (let kept = filter (\<lambda>l. \<not> is_run_fence l) body
          in if kept = [] then \<lparr>type = TEXT, code = None\<rparr>
             else \<lparr>type = CODE, code = Some (join_newline kept)\<rparr>)"
    by (simp add: parse_reply_reply_of reply_of_def Let_def)
next
  assume "\<forall>l \<in> set (split_newline text). \<not> is_run_fence l"
  then have "scan_lines (split_newline text) False [] = []"
    by (rule scan_outside_no_fence)
  then show "parse_reply text = \<lparr>type = TEXT, code = None\<rparr>"
    by (simp add: parse_reply_reply_of reply_of_def)
qed

text \<open>The theorem at a reply with two interior lines, and at a reply with no runnable
  fence.\<close>

theorem parse_reply_closed_fence_witness:
  "parse_reply ''Plan:\<newline>```run\<newline>print(1)\<newline>x = 2\<newline>```\<newline>Done.'' =
     \<lparr>type = CODE, code = Some ''print(1)\<newline>x = 2''\<rparr> \<and>
   parse_reply ''Nothing to run.\<newline>```python\<newline>x = 2\<newline>```'' =
     \<lparr>type = TEXT, code = None\<rparr>"
proof -
  have "parse_reply ''Plan:\<newline>```run\<newline>print(1)\<newline>x = 2\<newline>```\<newline>Done.'' =
          \<lparr>type = CODE, code = Some ''print(1)\<newline>x = 2''\<rparr>"
    using parse_reply_closed_fence
      [of "''Plan:\<newline>```run\<newline>print(1)\<newline>x = 2\<newline>```\<newline>Done.''"
          "[''Plan:'']" "''```run''" "[''print(1)'', ''x = 2'']" "''```''" "[''Done.'']"]
    by (simp add: str_eval)
  moreover have "parse_reply ''Nothing to run.\<newline>```python\<newline>x = 2\<newline>```'' =
          \<lparr>type = TEXT, code = None\<rparr>"
    using parse_reply_closed_fence
      [of "''Nothing to run.\<newline>```python\<newline>x = 2\<newline>```''"]
    by (simp add: str_eval)
  ultimately show ?thesis by simp
qed

text \<open>
  C3 as stated fails: the reply below has a properly closed runnable fence, with an
  empty interior, and the result is not \<open>CODE\<close> with the joined interior.
\<close>

theorem parse_reply_closed_fence_counterexample:
  "split_newline ''Start.\<newline>```run\<newline>```\<newline>End.'' =
     [''Start.''] @ [''```run''] @ [] @ [''```''] @ [''End.''] \<and>
   is_run_fence ''```run'' \<and> is_plain_fence ''```'' \<and> \<not> is_run_fence ''Start.'' \<and>
   parse_reply ''Start.\<newline>```run\<newline>```\<newline>End.'' \<noteq>
     \<lparr>type = CODE, code = Some (join_newline [])\<rparr>"
  by (simp add: parse_reply_def str_eval)

text \<open>
  C4, as amended. In a reply with two runnable fences (the lines are \<open>pre\<close>, the first
  opener, its interior, its closing fence, \<open>mid\<close>, a second opener, its interior, its
  closing fence, \<open>post\<close>), the result is made from the interior of the first fence
  alone: \<open>CODE\<close> with its lines (those that are not runnable openers) when there is one,
  \<open>TEXT\<close> with no code when there is none. The lines before the first fence, between
  the fences, inside the second fence and after it have no part in the result.
\<close>

theorem parse_reply_first_fence_only:
  "split_newline text =
     pre @ [opn] @ body @ [cls] @ mid @ [opn2] @ body2 @ [cls2] @ post \<and>
   (\<forall>l \<in> set pre. \<not> is_run_fence l) \<and> is_run_fence opn \<and>
   (\<forall>l \<in> set body. \<not> is_plain_fence l) \<and> is_plain_fence cls \<and>
   is_run_fence opn2 \<and> is_plain_fence cls2
   \<longrightarrow> parse_reply text =
        (let kept = filter (\<lambda>l. \<not> is_run_fence l) body
         in if kept = [] then \<lparr>type = TEXT, code = None\<rparr>
            else \<lparr>type = CODE, code = Some (join_newline kept)\<rparr>)"
proof
  assume h: "split_newline text =
     pre @ [opn] @ body @ [cls] @ mid @ [opn2] @ body2 @ [cls2] @ post \<and>
   (\<forall>l \<in> set pre. \<not> is_run_fence l) \<and> is_run_fence opn \<and>
   (\<forall>l \<in> set body. \<not> is_plain_fence l) \<and> is_plain_fence cls \<and>
   is_run_fence opn2 \<and> is_plain_fence cls2"
  then have "scan_lines (split_newline text) False [] = filter (\<lambda>l. \<not> is_run_fence l) body"
    using scan_closed_fence [of pre opn body cls "mid @ [opn2] @ body2 @ [cls2] @ post"]
    by simp
  then show "parse_reply text =
        (let kept = filter (\<lambda>l. \<not> is_run_fence l) body
         in if kept = [] then \<lparr>type = TEXT, code = None\<rparr>
            else \<lparr>type = CODE, code = Some (join_newline kept)\<rparr>)"
    by (simp add: parse_reply_reply_of reply_of_def Let_def)
qed

theorem parse_reply_first_fence_only_witness:
  "parse_reply ''a\<newline>```run\<newline>one()\<newline>```\<newline>b\<newline>```run\<newline>two()\<newline>```\<newline>c'' =
     \<lparr>type = CODE, code = Some ''one()''\<rparr>"
  using parse_reply_first_fence_only
    [of "''a\<newline>```run\<newline>one()\<newline>```\<newline>b\<newline>```run\<newline>two()\<newline>```\<newline>c''"
        "[''a'']" "''```run''" "[''one()'']" "''```''" "[''b'']" "''```run''" "[''two()'']"
        "''```''" "[''c'']"]
  by (simp add: str_eval)

text \<open>
  C4 as stated fails: the first of the two fences below is empty, and the result is
  \<open>TEXT\<close> with no code, not the interior of the first fence as \<open>CODE\<close>.
\<close>

theorem parse_reply_first_fence_only_counterexample:
  "split_newline ''```run\<newline>```\<newline>```run\<newline>two()\<newline>```'' =
     [] @ [''```run''] @ [] @ [''```''] @ [] @ [''```run''] @ [''two()''] @ [''```''] @ [] \<and>
   is_run_fence ''```run'' \<and> is_plain_fence ''```'' \<and>
   parse_reply ''```run\<newline>```\<newline>```run\<newline>two()\<newline>```'' = \<lparr>type = TEXT, code = None\<rparr> \<and>
   parse_reply ''```run\<newline>```\<newline>```run\<newline>two()\<newline>```'' \<noteq>
     \<lparr>type = CODE, code = Some (join_newline [])\<rparr>"
  by (simp add: parse_reply_def str_eval)

text \<open>
  C9. An opener line immediately followed by a closing fence line gives \<open>TEXT\<close> with
  no code, not \<open>CODE\<close> with the empty string; and \<open>parse_reply\<close> answers \<open>CODE\<close>
  exactly when the scan collected at least one line.
\<close>

theorem parse_reply_empty_fence:
  "parse_reply ''```run\<newline>```'' = \<lparr>type = TEXT, code = None\<rparr> \<and>
   parse_reply ''```run\<newline>```'' \<noteq> \<lparr>type = CODE, code = Some ''''\<rparr> \<and>
   (type (parse_reply text) = CODE) = (scan_lines (split_newline text) False [] \<noteq> [])"
  by (simp add: parse_reply_def str_eval Let_def)

subsection \<open>Claims about the instruction loop\<close>

text \<open>The definitions that evaluate a run of the scripted collaborators.\<close>

lemmas run_eval = call_def console_print_def llm_send_def process_code_reply_def Let_def
  stub_def script_call_def recording_def with_log_def
  fresh_agent_def busy_agent_def scripted_agent_def code_reply_def text_reply_def
  parse_reply_def str_eval emit_def MAX_TOKENS_def no_settings_def



text \<open>
  C2. (1) In every run of \<open>__call__\<close> that ends, normally or with an exception, the agent's
  prompt is unchanged and the model client is in the state that the model calls of the
  run, with the arguments listed, leave it in. When the console does not render the
  instruction, there is no model call and the active instruction is as it was.
  Otherwise the first model call has the instruction, the \<open>llm\<close> argument, and as
  \<open>system_prompt\<close> the agent's prompt when the client's history is empty and \<open>None\<close>
  when it is not; every later model call of the run (the feedback turns) has \<open>None\<close>
  as \<open>system_prompt\<close> and as name; and the instruction is recorded as the active
  instruction exactly when the prompt that was attached is not empty. (2) With a model
  client whose history is not empty once it was called, in every session (any number of
  runs, each ended normally or with an exception, on one agent) the first model call of
  the session has the prompt or \<open>None\<close> as in (1), and every later model call of the
  session has \<open>None\<close>.
\<close>

theorem system_prompt_first_call_only:
  "(call fuel c instr name a = Some (res, a') \<longrightarrow>
      (\<exists>ev. trace a' = trace a @ ev \<and>
            system_prompt a' = system_prompt a \<and>
            llm a' = replay c (llm a) (llm_calls ev) \<and>
            (case markup_error c (''[red]'' @ instr) of
               Some e \<Rightarrow> llm_calls ev = [] \<and> instruction a' = instruction a
             | None \<Rightarrow>
                 (\<exists>rest. llm_calls ev =
                           (instr, if llm_history c (llm a) then None else system_prompt a, name)
                           # rest \<and>
                         feedback_calls rest) \<and>
                 instruction a' =
                   (if \<not> llm_history c (llm a) \<and> truthy (system_prompt a) then Some instr
                    else instruction a)))) \<and>
   ((\<forall>l t p nm. llm_history c (snd (llm_call c l t p nm))) \<and>
    session c runs a = Some b \<longrightarrow>
      (\<exists>ev. trace b = trace a @ ev \<and>
            system_prompt b = system_prompt a \<and>
            llm b = replay c (llm a) (llm_calls ev) \<and>
            (llm_calls ev = [] \<or>
             (\<exists>k. map (\<lambda>x. fst (snd x)) (llm_calls ev) =
                    (if llm_history c (llm a) then None else system_prompt a)
                    # replicate k None))))"
proof (intro conjI impI)
  assume run: "call fuel c instr name a = Some (res, a')"
  show "\<exists>ev. trace a' = trace a @ ev \<and>
            system_prompt a' = system_prompt a \<and>
            llm a' = replay c (llm a) (llm_calls ev) \<and>
            (case markup_error c (''[red]'' @ instr) of
               Some e \<Rightarrow> llm_calls ev = [] \<and> instruction a' = instruction a
             | None \<Rightarrow>
                 (\<exists>rest. llm_calls ev =
                           (instr, if llm_history c (llm a) then None else system_prompt a, name)
                           # rest \<and>
                         feedback_calls rest) \<and>
                 instruction a' =
                   (if \<not> llm_history c (llm a) \<and> truthy (system_prompt a) then Some instr
                    else instruction a))"
  proof (cases "markup_error c (''[red]'' @ instr)")
    case (Some e)
    from call_markup_error [OF Some, of fuel name a] run have "a' = a" by simp
    with Some show ?thesis by (intro exI [of _ "[]"]) simp
  next
    case None
    from call_effect [OF run None] obtain ev where
      ev: "trace a' = trace a @ [Print (StartInstruction instr),
             LlmCall instr (if llm_history c (llm a) then None else system_prompt a) name] @ ev"
          "feedback_calls (llm_calls ev)"
          "llm a' = replay c (llm a)
             ((instr, if llm_history c (llm a) then None else system_prompt a, name)
              # llm_calls ev)"
          "system_prompt a' = system_prompt a"
          "instruction a' =
             (if \<not> llm_history c (llm a) \<and> truthy (system_prompt a) then Some instr
              else instruction a)"
      by blast
    with None show ?thesis
      by (intro exI [of _ "[Print (StartInstruction instr),
             LlmCall instr (if llm_history c (llm a) then None else system_prompt a) name] @ ev"])
         simp
  qed
next
  assume h: "(\<forall>l t p nm. llm_history c (snd (llm_call c l t p nm))) \<and>
    session c runs a = Some b"
  then have H: "\<forall>l t sp nm. llm_history c (snd (llm_call c l t sp nm))"
    and s: "session c runs a = Some b"
    by blast+
  from session_effect [OF H s]
  show "\<exists>ev. trace b = trace a @ ev \<and>
            system_prompt b = system_prompt a \<and>
            llm b = replay c (llm a) (llm_calls ev) \<and>
            (llm_calls ev = [] \<or>
             (\<exists>k. map (\<lambda>x. fst (snd x)) (llm_calls ev) =
                    (if llm_history c (llm a) then None else system_prompt a)
                    # replicate k None))"
    by (simp add: llm_prompts_calls)
qed

text \<open>
  A session of three instructions on the scripted collaborators, with the model client
  that keeps the arguments of its calls: an instruction that the console does not
  render, then two that it renders. What the client has received at the end is the
  prompt with its first call, and \<open>None\<close> with the feedback turn and with the later
  instruction.
\<close>

theorem system_prompt_first_call_only_witness:
  "\<exists>a1 a2.
     call (Suc (Suc 0)) (recording (stub (Inl Interrupt))) ''list the files'' None
         (with_log fresh_agent) = Some (Inr (), a1) \<and>
     snd (llm a1) =
       [(''list the files'', Some ''You are an agent.'', None), (''done'', None, None)] \<and>
     llm_calls (trace a1) = snd (llm a1) \<and>
     system_prompt a1 = Some ''You are an agent.'' \<and>
     instruction a1 = Some ''list the files'' \<and>
     call 0 (recording (stub (Inl Interrupt))) ''fix [/b] tag'' None (with_log fresh_agent) =
       Some (Inl (Raised ''MarkupError''), with_log fresh_agent) \<and>
     session (recording (stub (Inl Interrupt)))
       [(0, ''fix [/b] tag'', None), (Suc (Suc 0), ''list the files'', None),
        (Suc 0, ''thanks'', None)]
       (with_log fresh_agent) = Some a2 \<and>
     snd (llm a2) =
       [(''list the files'', Some ''You are an agent.'', None), (''done'', None, None),
        (''thanks'', None, None)] \<and>
     llm_calls (trace a2) = snd (llm a2) \<and>
     (\<exists>k. map (\<lambda>x. fst (snd x)) (llm_calls (trace a2)) =
            Some ''You are an agent.'' # replicate k None) \<and>
     system_prompt a2 = Some ''You are an agent.'' \<and>
     instruction a2 = Some ''list the files''"
proof -
  let ?R = "recording (stub (Inl Interrupt))"
  let ?A = "with_log fresh_agent"
  define a1 where "a1 =
    ?A\<lparr>instruction := Some ''list the files'',
       llm := (\<lparr>history = [''list the files'', ''done''], pending = [Some text_reply],
                last_message = Some text_reply\<rparr>,
               [(''list the files'', Some ''You are an agent.'', None),
                (''done'', None, None)]),
       trace :=
         [Print (StartInstruction ''list the files''),
          LlmCall ''list the files'' (Some ''You are an agent.'') None,
          Print (LlmResponse code_reply),
          Print (StartExecute (Some ''print(1)'')),
          RunnerCall (Some ''print(1)''),
          Print (ExecuteResult ''done''), Print StartFeedback,
          LlmCall ''done'' None None,
          Print (LlmResponse text_reply),
          Print EndInstruction, Bell]\<rparr>"
  define a2 where "a2 =
    a1\<lparr>llm := (\<lparr>history = [''list the files'', ''done'', ''thanks''], pending = [],
                last_message = Some text_reply\<rparr>,
               [(''list the files'', Some ''You are an agent.'', None),
                (''done'', None, None), (''thanks'', None, None)]),
       trace := trace a1 @
         [Print (StartInstruction ''thanks''), LlmCall ''thanks'' None None,
          Print (LlmResponse text_reply), Print EndInstruction, Bell]\<rparr>"
  have run0: "call 0 ?R ''fix [/b] tag'' None ?A = Some (Inl (Raised ''MarkupError''), ?A)"
    by (simp add: run_eval)
  have run1: "call (Suc (Suc 0)) ?R ''list the files'' None ?A = Some (Inr (), a1)"
    by (simp add: run_eval a1_def)
  have run2: "call (Suc 0) ?R ''thanks'' None a1 = Some (Inr (), a2)"
    by (simp add: run_eval a1_def a2_def)
  have sess: "session ?R
       [(0, ''fix [/b] tag'', None), (Suc (Suc 0), ''list the files'', None),
        (Suc 0, ''thanks'', None)] ?A = Some a2"
    by (simp add: run0 run1 run2)
  have fresh: "\<not> llm_history ?R (llm ?A)" "truthy (system_prompt ?A)"
              "system_prompt ?A = Some ''You are an agent.''" "trace ?A = []"
              "instruction ?A = None"
              "markup_error ?R (''[red]'' @ ''list the files'') = None"
    by (simp_all add: recording_def with_log_def stub_def fresh_agent_def scripted_agent_def
          str_eval)
  have H: "\<forall>l t p nm. llm_history ?R (snd (llm_call ?R l t p nm))"
    by (rule recording_history [OF stub_history])
  have l1: "snd (llm a1) =
       [(''list the files'', Some ''You are an agent.'', None), (''done'', None, None)]"
           "llm_calls (trace a1) = snd (llm a1)"
    by (simp_all add: a1_def)
  have l2: "snd (llm a2) =
       [(''list the files'', Some ''You are an agent.'', None), (''done'', None, None),
        (''thanks'', None, None)]"
           "llm_calls (trace a2) = snd (llm a2)"
           "instruction a2 = Some ''list the files''"
    by (simp_all add: a1_def a2_def)
  from system_prompt_first_call_only [THEN conjunct1, THEN mp, OF run1] fresh
  have f1: "system_prompt a1 = Some ''You are an agent.''"
           "instruction a1 = Some ''list the files''"
    by auto
  from system_prompt_first_call_only [THEN conjunct2, THEN mp, OF conjI [OF H sess]] fresh
  obtain ev where ev: "trace a2 = ev" "system_prompt a2 = Some ''You are an agent.''"
    "llm_calls ev = [] \<or>
     (\<exists>k. map (\<lambda>x. fst (snd x)) (llm_calls ev) = Some ''You are an agent.'' # replicate k None)"
    by auto
  from ev l2 have f2: "\<exists>k. map (\<lambda>x. fst (snd x)) (llm_calls (trace a2)) =
            Some ''You are an agent.'' # replicate k None"
    by auto
  show ?thesis
    by (rule exI [of _ a1], rule exI [of _ a2])
       (intro conjI run0 run1 sess l1 l2 f1 f2 ev(2))
qed

subsection \<open>Claims about \<open>_init\<close>\<close>

text \<open>
  C6, as amended. For every configuration whose \<open>system_prompt\<close> is \<open>Base\<close>, whose
  \<open>api\<close> is the one capability \<open>Weather\<close> with the variable \<open>API_KEY\<close> of value \<open>abc\<close>
  and description \<open>key\<close> and the description \<open>Gets weather\<close>, and which has the key
  \<open>llm\<close>, the constructor returns an agent whose system prompt is, line by line,
  \<open>Base\<close>, the header \<open>## Weather API\<close>, the header of the environment subsection, the
  item \<open>- API_KEY: key\<close>, the header of the description subsection and \<open>Gets weather\<close>;
  the runner is a new runner on which \<open>setenv\<close> was called once, with \<open>API_KEY\<close>,
  \<open>abc\<close> and \<open>key\<close>.
\<close>

theorem init_weather_prompt:
  assumes "cfg_system_prompt config = Some ''Base''"
    and "cfg_api config =
           Some [(''Weather'', \<lparr>api_env = Some [(''API_KEY'', ''abc'', ''key'')],
                                api_desc = Some ''Gets weather''\<rparr>)]"
    and "cfg_llm config = Some llm_config"
  shows "Agent c config certf =
           Inr \<lparr>settings = config, instruction = None,
                system_prompt =
                  Some (''Base\<newline>## Weather API\<newline>### '' @ T c ''env_description'' @
                        ''\<newline>- API_KEY: key\<newline>### API '' @ T c ''description'' @
                        ''\<newline>Gets weather''),
                max_tokens = (case cfg_max_tokens config of None \<Rightarrow> MAX_TOKENS | Some n \<Rightarrow> n),
                llm = llm_new c llm_config
                        (case cfg_max_tokens config of None \<Rightarrow> MAX_TOKENS | Some n \<Rightarrow> n),
                runner = runner_setenv c (runner_new c config) ''API_KEY'' ''abc'' ''key'',
                cert_file = certf,
                trace = [RunnerSetenv ''API_KEY'' ''abc'' ''key'']\<rparr>"
  using assms
  by (simp add: Agent_def init_def Let_def py_join_def emit_def str_eval)

text \<open>The theorem at the scenario's configuration with an \<open>llm\<close> entry; the translation
  of the scripted collaborators is the identity.\<close>

theorem init_weather_prompt_witness:
  "Agent (stub (Inl Interrupt)) (weather_config\<lparr>cfg_llm := Some (JObj [])\<rparr>) None =
     Inr \<lparr>settings = weather_config\<lparr>cfg_llm := Some (JObj [])\<rparr>, instruction = None,
          system_prompt =
            Some ''Base\<newline>## Weather API\<newline>### env_description\<newline>- API_KEY: key\<newline>### API description\<newline>Gets weather'',
          max_tokens = 4096,
          llm = \<lparr>history = [], pending = [], last_message = None\<rparr>,
          runner = [(''API_KEY'', ''abc'', ''key'')],
          cert_file = None,
          trace = [RunnerSetenv ''API_KEY'' ''abc'' ''key'']\<rparr>"
  using init_weather_prompt
    [of "weather_config\<lparr>cfg_llm := Some (JObj [])\<rparr>" "JObj []" "stub (Inl Interrupt)" None]
  by (simp add: weather_config_def no_settings_def stub_def MAX_TOKENS_def)

text \<open>
  C6 as stated fails: the scenario's configuration has the keys \<open>system_prompt\<close> and
  \<open>api\<close> only, and \<open>_init\<close> reads \<open>config['llm']\<close> before it comes to \<open>api\<close>.
\<close>

theorem init_weather_without_llm_counterexample:
  "cfg_system_prompt weather_config = Some ''Base'' \<and>
   cfg_api weather_config =
     Some [(''Weather'', \<lparr>api_env = Some [(''API_KEY'', ''abc'', ''key'')],
                          api_desc = Some ''Gets weather''\<rparr>)] \<and>
   Agent (stub (Inl Interrupt)) weather_config None = Inl (KeyError ''llm'')"
  by (simp add: Agent_def init_def weather_config_def no_settings_def)

subsection \<open>\<open>step\<close> at a recorded reply\<close>

lemma step_no_context:
  "\<not> truthy (llm_get_last_message c (llm a)) \<Longrightarrow>
   step c a = (Inr (), a\<lparr>trace := trace a @ [Print NoContext]\<rparr>)"
  by (simp add: step_def emit_def)

lemma step_raises:
  "truthy (llm_get_last_message c (llm a)) \<Longrightarrow>
   step c a = (Inl (AttributeError ''process_reply''), a)"
  by (simp add: step_def)

text \<open>
  C5. With no last message \<open>step\<close> prints the no-context message and does nothing
  else. With a last message (here a reply that holds a runnable fence) it raises
  \<open>AttributeError\<close>: nothing is classified and nothing is executed.
\<close>

theorem step_with_last_message_raises:
  "step (stub (Inl Interrupt))
        (scripted_agent no_settings None [''list the files''] [] (Some code_reply)) =
     (Inl (AttributeError ''process_reply''),
      scripted_agent no_settings None [''list the files''] [] (Some code_reply)) \<and>
   step (stub (Inl Interrupt)) (scripted_agent no_settings None [] [] None) =
     (Inr (), (scripted_agent no_settings None [] [] None)\<lparr>trace := [Print NoContext]\<rparr>)"
  by (simp add: step_def stub_def scripted_agent_def emit_def code_reply_def)

subsection \<open>Claims about \<open>publish\<close>\<close>

text \<open>The definitions that evaluate \<open>publish\<close> on the scripted collaborators.\<close>

lemmas pub_eval = publish_request_def stage_cert_def publish_author_def emit_def stub_def
  pub_agent_def pub_settings_def scripted_agent_def no_settings_def CERT_PATH_def MAX_TOKENS_def
  created_def created_not_json_def created_no_url_def created_empty_def server_error_def
  created_tagged_def server_error_tagged_def console_print_def

text \<open>
  C7. When the publish URL or the certificate is missing (or empty), \<open>publish\<close>
  returns normally, and all it does is print the disabled message: no POST, no write
  of the certificate file.
\<close>

theorem publish_disabled:
  "\<not> (truthy (cfg_publish_url (settings a)) \<and> truthy (cfg_publish_cert (settings a))) \<Longrightarrow>
   publish c ttl author a = (Inr (), a\<lparr>trace := trace a @ [Print PublishDisabled]\<rparr>)"
  by (cases "cfg_publish_url (settings a)"; cases "cfg_publish_cert (settings a)")
     (auto simp: publish_def emit_def)

text \<open>The theorem at settings with no certificate, and at settings with an empty URL.\<close>

theorem publish_disabled_witness:
  "publish (stub (Inr created)) (Some ''Report'') (Some ''me'')
     (scripted_agent (pub_settings\<lparr>cfg_publish_cert := None\<rparr>) None [] [] None) =
     (Inr (), (scripted_agent (pub_settings\<lparr>cfg_publish_cert := None\<rparr>) None [] [] None)
                \<lparr>trace := [Print PublishDisabled]\<rparr>) \<and>
   publish (stub (Inr created)) (Some ''Report'') (Some ''me'')
     (scripted_agent (pub_settings\<lparr>cfg_publish_url := Some ''''\<rparr>) None [] [] None) =
     (Inr (), (scripted_agent (pub_settings\<lparr>cfg_publish_url := Some ''''\<rparr>) None [] [] None)
                \<lparr>trace := [Print PublishDisabled]\<rparr>)"
  using publish_disabled
      [of "scripted_agent (pub_settings\<lparr>cfg_publish_cert := None\<rparr>) None [] [] None"
          "stub (Inr created)" "Some ''Report''" "Some ''me''"]
    publish_disabled
      [of "scripted_agent (pub_settings\<lparr>cfg_publish_url := Some ''''\<rparr>) None [] [] None"
          "stub (Inr created)" "Some ''Report''" "Some ''me''"]
  by (simp add: scripted_agent_def pub_settings_def no_settings_def)




text \<open>
  C10. When the upload is answered with status 201 and \<open>response.json()\<close> raises, or
  returns an object with no key \<open>url\<close>, the exception leaves \<open>publish\<close>: nothing is
  printed, and the result is the exception.
\<close>

theorem publish_success_body_escapes:
  assumes "cfg_publish_url (settings a) = Some u" and "u \<noteq> []"
    and "cfg_publish_cert (settings a) = Some crt" and "crt \<noteq> []"
    and "publish_author c author = Inr au"
    and "req = publish_request c u ttl au a"
    and "a2 = emit (HttpPost req) (stage_cert crt a)"
    and "http_post c req = Inr resp" and "status_code resp = 201"
  shows "(response_json resp = Inl e \<longrightarrow> publish c ttl author a = (Inl e, a2)) \<and>
         (response_json resp = Inr (JObj kvs) \<and> ''url'' \<notin> fst ` set kvs
          \<longrightarrow> publish c ttl author a = (Inl (KeyError ''url''), a2))"
proof -
  have "''url'' \<notin> fst ` set kvs \<Longrightarrow> map_of (rev kvs) ''url'' = None"
    by (simp add: map_of_eq_None_iff)
  with assms show ?thesis
    by (simp add: publish_reaches_upload publish_upload_def)
qed

text \<open>The two cases at the scripted transport: a body that is not JSON, and an object
  without \<open>url\<close>.\<close>

theorem publish_success_body_escapes_witness:
  "publish (stub (Inr created_not_json)) (Some ''Report'') None pub_agent =
     (Inl (Raised ''JSONDecodeError''), posted_agent) \<and>
   publish (stub (Inr created_no_url)) (Some ''Report'') None pub_agent =
     (Inl (KeyError ''url''), posted_agent)"
proof -
  let ?req = "\<lparr>url = ''https://example.org/publish'', content = ''<html></html>'',
               title = Some ''Report'', metadata = JObj [(''author'', JStr ''operator'')],
               cert = ''/tmp/aipy_client.crt'', verify = True\<rparr>"
  have s: "cfg_publish_url (settings pub_agent) = Some ''https://example.org/publish''"
          "''https://example.org/publish'' \<noteq> []"
          "cfg_publish_cert (settings pub_agent) = Some ''CERT''" "''CERT'' \<noteq> []"
    by (simp_all add: pub_eval)
  have au: "publish_author (stub p) None = Inr ''operator''" for p
    by (simp add: pub_eval)
  have req: "?req = publish_request (stub p) ''https://example.org/publish'' (Some ''Report'')
                      ''operator'' pub_agent" for p
    by (simp add: pub_eval)
  have a2: "posted_agent = emit (HttpPost ?req) (stage_cert ''CERT'' pub_agent)"
    by (simp add: posted_agent_def pub_eval)
  have p1: "http_post (stub (Inr created_not_json)) ?req = Inr created_not_json"
           "status_code created_not_json = 201"
    by (simp_all add: stub_def created_not_json_def)
  have p2: "http_post (stub (Inr created_no_url)) ?req = Inr created_no_url"
           "status_code created_no_url = 201"
    by (simp_all add: stub_def created_no_url_def)
  have "publish (stub (Inr created_not_json)) (Some ''Report'') None pub_agent =
          (Inl (Raised ''JSONDecodeError''), posted_agent)"
    using publish_success_body_escapes
      [where e = "Raised ''JSONDecodeError''", OF s au req a2 p1, THEN conjunct1]
    by (simp add: created_not_json_def)
  moreover
  have "publish (stub (Inr created_no_url)) (Some ''Report'') None pub_agent =
          (Inl (KeyError ''url''), posted_agent)"
    using publish_success_body_escapes
      [where kvs = "[(''id'', JNumber ''1'')]", OF s au req a2 p2, THEN conjunct2]
    by (simp add: created_no_url_def)
  ultimately show ?thesis by blast
qed

end
